(* ===== verification/Prelude.thy ===== *)
theory Prelude
  imports Main "HOL-Library.Word"
begin

text \<open>
  Shared vocabulary of the development. JavaScript statements run against a
  mutable world (here: the DOM) and may throw; effects performed before a
  \<open>throw\<close> persist. The exception-state monad \<open>('e, 's, 'a) est\<close> models
  exactly that: a computation takes the state and returns either an exception
  (\<open>Inl\<close>) or a value (\<open>Inr\<close>), together with the state reached at that point.
  Pure JavaScript expressions that may throw are values of the sum type
  \<open>'e + 'a\<close>, composed with \<open>sbind\<close>. The collection \<open>est_simps\<close> holds the
  evaluation rules the component proofs unfold.
\<close>

named_theorems est_simps \<open>evaluation rules of the exception-state monad\<close>

section \<open>Pure computations that may throw\<close>

definition sbind :: "'e + 'a \<Rightarrow> ('a \<Rightarrow> 'e + 'b) \<Rightarrow> 'e + 'b" where
  "sbind m f = (case m of Inl e \<Rightarrow> Inl e | Inr a \<Rightarrow> f a)"

definition scatch :: "'e + 'a \<Rightarrow> ('e \<Rightarrow> 'e + 'a) \<Rightarrow> 'e + 'a" where
  "scatch m h = (case m of Inl e \<Rightarrow> h e | Inr a \<Rightarrow> Inr a)"

lemma sbind_Inl [simp]: "sbind (Inl e) f = Inl e"
  and sbind_Inr [simp]: "sbind (Inr a) f = f a"
  by (simp_all add: sbind_def)

lemma scatch_Inl [simp]: "scatch (Inl e) h = h e"
  and scatch_Inr [simp]: "scatch (Inr a) h = Inr a"
  by (simp_all add: scatch_def)

text \<open>\<open>catch (e) { throw e; }\<close> changes nothing.\<close>

lemma scatch_rethrow [simp]: "scatch m Inl = m"
  by (cases m) simp_all

lemma sbind_Inr_right [simp]: "sbind m Inr = m"
  by (cases m) simp_all

lemma sbind_eq_Inr:
  "sbind m f = Inr b \<longleftrightarrow> (\<exists>a. m = Inr a \<and> f a = Inr b)"
  by (cases m) simp_all

section \<open>The exception-state monad\<close>

type_synonym ('e, 's, 'a) est = "'s \<Rightarrow> ('e + 'a) \<times> 's"

definition est_return :: "'a \<Rightarrow> ('e, 's, 'a) est" where
  "est_return a = (\<lambda>s. (Inr a, s))"

definition est_throw :: "'e \<Rightarrow> ('e, 's, 'a) est" where
  "est_throw e = (\<lambda>s. (Inl e, s))"

definition est_lift :: "'e + 'a \<Rightarrow> ('e, 's, 'a) est" where
  "est_lift r = (\<lambda>s. (r, s))"

definition est_modify :: "('s \<Rightarrow> 's) \<Rightarrow> ('e, 's, unit) est" where
  "est_modify f = (\<lambda>s. (Inr (), f s))"

definition est_bind :: "('e, 's, 'a) est \<Rightarrow> ('a \<Rightarrow> ('e, 's, 'b) est) \<Rightarrow> ('e, 's, 'b) est" where
  "est_bind m f = (\<lambda>s. case m s of (Inl e, s') \<Rightarrow> (Inl e, s') | (Inr a, s') \<Rightarrow> f a s')"

definition est_catch :: "('e, 's, 'a) est \<Rightarrow> ('e \<Rightarrow> ('e, 's, 'a) est) \<Rightarrow> ('e, 's, 'a) est" where
  "est_catch m h = (\<lambda>s. case m s of (Inl e, s') \<Rightarrow> h e s' | (Inr a, s') \<Rightarrow> (Inr a, s'))"

text \<open>\<open>xs.forEach(f)\<close>: the callback runs on each element in order and the first
  exception ends the loop, keeping the effects of the calls before it.\<close>

fun est_forEach :: "('a \<Rightarrow> ('e, 's, unit) est) \<Rightarrow> 'a list \<Rightarrow> ('e, 's, unit) est" where
  "est_forEach f [] = est_return ()"
| "est_forEach f (x # xs) = est_bind (f x) (\<lambda>_. est_forEach f xs)"

lemma est_return_apply [est_simps]: "est_return a s = (Inr a, s)"
  and est_throw_apply [est_simps]: "est_throw e s = (Inl e, s)"
  and est_lift_apply [est_simps]: "est_lift r s = (r, s)"
  and est_modify_apply [est_simps]: "est_modify f s = (Inr (), f s)"
  by (simp_all add: est_return_def est_throw_def est_lift_def est_modify_def)

lemma est_bind_apply [est_simps]:
  "est_bind m f s = (case m s of (Inl e, s') \<Rightarrow> (Inl e, s') | (Inr a, s') \<Rightarrow> f a s')"
  by (simp add: est_bind_def)

lemma est_catch_apply [est_simps]:
  "est_catch m h s = (case m s of (Inl e, s') \<Rightarrow> h e s' | (Inr a, s') \<Rightarrow> (Inr a, s'))"
  by (simp add: est_catch_def)

lemma est_bind_Inr [simp]: "m s = (Inr a, s') \<Longrightarrow> est_bind m f s = f a s'"
  and est_bind_Inl [simp]: "m s = (Inl e, s') \<Longrightarrow> est_bind m f s = (Inl e, s')"
  and est_catch_Inr [simp]: "m s = (Inr a, s') \<Longrightarrow> est_catch m h s = (Inr a, s')"
  and est_catch_Inl [simp]: "m s = (Inl e, s') \<Longrightarrow> est_catch m h s = h e s'"
  by (simp_all add: est_bind_def est_catch_def)

subsection \<open>Monad laws\<close>

lemma est_bind_return_left [simp]: "est_bind (est_return a) f = f a"
  by (simp add: est_bind_def est_return_def)

lemma est_bind_return_right [simp]: "est_bind m est_return = m"
  by (rule ext) (simp add: est_bind_def est_return_def split: prod.split sum.split)

lemma est_bind_assoc:
  "est_bind (est_bind m f) g = est_bind m (\<lambda>a. est_bind (f a) g)"
  by (rule ext) (simp add: est_bind_def split: prod.split sum.split)

lemma est_catch_rethrow [simp]: "est_catch m est_throw = m"
  by (rule ext) (simp add: est_catch_def est_throw_def split: prod.split sum.split)

lemma est_forEach_append:
  "est_forEach f (xs @ ys) = est_bind (est_forEach f xs) (\<lambda>_. est_forEach f ys)"
  by (induction xs) (simp_all add: est_bind_assoc)

section \<open>Strings\<close>

text \<open>\<open>Array.prototype.join\<close>: the parts separated by \<open>sep\<close>.\<close>

fun join_with :: "string \<Rightarrow> string list \<Rightarrow> string" where
  "join_with sep [] = []"
| "join_with sep [x] = x"
| "join_with sep (x # y # xs) = x @ sep @ join_with sep (y # xs)"

end
