(* ===== verification/JsValue.thy ===== *)
theory JsValue
  imports Prelude
begin

text \<open>
  The JavaScript values the program handles: the values \<open>response.json()\<close>
  can produce (JSON values; a number is kept as its ECMAScript
  \<open>Number::toString\<close> text, which determines the double up to the sign of
  zero, so the model needs no floating point), \<open>undefined\<close>
  for a missing property, and the \<open>Error\<close> objects that \<open>throw\<close> and
  \<open>catch\<close> pass around. Property access \<open>v.k\<close> (\<open>get_prop\<close>) throws a
  \<open>TypeError\<close> on \<open>null\<close> and \<open>undefined\<close> and yields \<open>undefined\<close> for a
  missing own property; a chain \<open>v.k1.k2\<close> is \<open>get_path\<close>. The
  interpolation \<open>${v}\<close> of a template literal converts with \<open>to_str\<close>
  (ECMAScript ToString), which throws a TypeError for an object whose own
  \<open>toString\<close> property shadows \<open>Object.prototype.toString\<close>, also inside an
  array. The TypeError messages are V8's wording.
\<close>

section \<open>Errors\<close>

datatype js_error = JsError (err_name: string) (err_message: string)

definition type_error :: "string \<Rightarrow> js_error" where
  "type_error msg = JsError ''TypeError'' msg"

definition squote :: "string \<Rightarrow> string" where
  "squote s = [CHR 0x27] @ s @ [CHR 0x27]"

text \<open>V8: \<open>Cannot read properties of null (reading 'forEach')\<close>.\<close>

definition read_error :: "string \<Rightarrow> string \<Rightarrow> js_error" where
  "read_error base key =
     type_error (''Cannot read properties of '' @ base @ '' (reading '' @ squote key @ '')'')"

text \<open>V8: \<open>Cannot set properties of null (setting 'innerHTML')\<close>.\<close>

definition set_error :: "string \<Rightarrow> string \<Rightarrow> js_error" where
  "set_error base key =
     type_error (''Cannot set properties of '' @ base @ '' (setting '' @ squote key @ '')'')"

section \<open>Values\<close>

datatype jsval =
    JUndefined
  | JNull
  | JBool bool
  | JNum string
  | JStr string
  | JArr "jsval list"
  | JObj "(string \<times> jsval) list"

text \<open>
  An object is the list of its own properties in insertion order; as
  \<open>JSON.parse\<close> does for a repeated key, the last binding wins. The keys the
  program reads (\<open>name\<close>, \<open>email\<close>, \<open>address\<close>, \<open>city\<close>, \<open>forEach\<close>) are not
  inherited from \<open>Object.prototype\<close>, so own properties are all that matters.
\<close>

definition decimal_digits :: string where
  "decimal_digits = ''0123456789''"

definition digit_char :: "nat \<Rightarrow> char" where
  "digit_char d = decimal_digits ! d"

text \<open>A length in decimal, as \<open>Number::toString\<close> writes an integer below \<open>10^21\<close>.\<close>

fun nat_to_str :: "nat \<Rightarrow> string" where
  "nat_to_str n = (if n < 10 then [digit_char n] else nat_to_str (n div 10) @ [digit_char (n mod 10)])"

declare nat_to_str.simps [simp del]

fun get_prop :: "jsval \<Rightarrow> string \<Rightarrow> js_error + jsval" where
  "get_prop JUndefined k = Inl (read_error ''undefined'' k)"
| "get_prop JNull k = Inl (read_error ''null'' k)"
| "get_prop (JObj kvs) k = Inr (case map_of (rev kvs) k of Some v \<Rightarrow> v | None \<Rightarrow> JUndefined)"
| "get_prop (JArr xs) k = Inr (if k = ''length'' then JNum (nat_to_str (length xs)) else JUndefined)"
| "get_prop (JStr s) k = Inr (if k = ''length'' then JNum (nat_to_str (length s)) else JUndefined)"
| "get_prop (JBool b) k = Inr JUndefined"
| "get_prop (JNum n) k = Inr JUndefined"

fun get_path :: "jsval \<Rightarrow> string list \<Rightarrow> js_error + jsval" where
  "get_path v [] = Inr v"
| "get_path v (k # ks) = sbind (get_prop v k) (\<lambda>w. get_path w ks)"

section \<open>ToString\<close>

text \<open>
  V8: \<open>Cannot convert object to primitive value\<close>. A JSON object has no
  callable own property, so when it has an own \<open>toString\<close> ToPrimitive
  finds neither a callable \<open>toString\<close> nor a primitive-returning \<open>valueOf\<close>.
\<close>

definition to_primitive_error :: js_error where
  "to_primitive_error = type_error ''Cannot convert object to primitive value''"

text \<open>
  \<open>String(v)\<close> as a template literal applies it. An array is
  \<open>Array.prototype.join\<close> with commas, left to right, \<open>null\<close> and
  \<open>undefined\<close> elements giving the empty string (\<open>join_elems\<close>); a plain
  object gives \<open>[object Object]\<close>.
\<close>

fun to_str :: "jsval \<Rightarrow> js_error + string"
and join_elems :: "jsval list \<Rightarrow> js_error + string list" where
  "to_str JUndefined = Inr ''undefined''"
| "to_str JNull = Inr ''null''"
| "to_str (JBool b) = Inr (if b then ''true'' else ''false'')"
| "to_str (JNum n) = Inr n"
| "to_str (JStr s) = Inr s"
| "to_str (JArr xs) = sbind (join_elems xs) (\<lambda>ss. Inr (join_with '','' ss))"
| "to_str (JObj kvs) =
     (if map_of kvs ''toString'' = None then Inr ''[object Object]'' else Inl to_primitive_error)"
| "join_elems [] = Inr []"
| "join_elems (v # vs) =
     sbind (if v = JNull \<or> v = JUndefined then Inr [] else to_str v)
       (\<lambda>s. sbind (join_elems vs) (\<lambda>ss. Inr (s # ss)))"

text \<open>\<open>`...${e}...`\<close>: evaluate the property chain \<open>e\<close>, then convert.\<close>

definition interp :: "jsval \<Rightarrow> string list \<Rightarrow> js_error + string" where
  "interp v path = sbind (get_path v path) to_str"

text \<open>The values whose conversion throws: an object with an own \<open>toString\<close>, or an array holding one at any depth.\<close>

fun own_toString :: "jsval \<Rightarrow> bool" where
  "own_toString (JObj kvs) = (map_of kvs ''toString'' \<noteq> None)"
| "own_toString (JArr xs) = list_ex own_toString xs"
| "own_toString v = False"

section \<open>Property access and conversion\<close>

text \<open>Reading a property throws exactly on \<open>null\<close> and \<open>undefined\<close>.\<close>

lemma get_prop_throws_iff: "(\<exists>e. get_prop v k = Inl e) \<longleftrightarrow> v = JNull \<or> v = JUndefined"
  by (cases v) simp_all

lemma get_path_append:
  "get_path v (xs @ ys) = sbind (get_path v xs) (\<lambda>w. get_path w ys)"
  by (induction xs arbitrary: v) (auto simp: sbind_def split: sum.split)

lemma get_path_single [simp]: "get_path v [k] = get_prop v k"
  by (cases "get_prop v k") simp_all

lemma to_str_throws_iff:
  "(\<exists>e. to_str v = Inl e) \<longleftrightarrow> own_toString v"
  "(\<exists>e. join_elems vs = Inl e) \<longleftrightarrow> list_ex own_toString vs"
proof (induction v and vs rule: to_str_join_elems.induct)
qed (auto simp: sbind_def split: sum.splits)

lemma interp_throws_iff:
  "(\<exists>e. interp v path = Inl e) \<longleftrightarrow>
     (\<exists>e. get_path v path = Inl e) \<or> (\<exists>w. get_path v path = Inr w \<and> own_toString w)"
  using to_str_throws_iff(1) by (cases "get_path v path") (auto simp: interp_def)

end
