(* ===== verification/Api.thy ===== *)
theory Api
  imports JsValue
begin

text \<open>
  \<open>src/js/api.js\<close>: \<open>fetchUsers\<close> requests the user list and yields the decoded
  JSON body, or rejects. The platform is a parameter: \<open>net\<close> says how the
  promise of \<open>fetch(url)\<close> settles (a network failure rejects it, otherwise it
  resolves to a response), and \<open>parse\<close> is the JSON parser behind
  \<open>response.json()\<close> (\<open>Inl\<close> is its SyntaxError message). The response's
  body is either delivered in full or interrupted while it is read by a
  network error, in which case \<open>response.json()\<close> rejects with a TypeError
  (Fetch standard; the code installs no \<open>AbortController\<close>, so no other
  failure of the stream can occur). \<open>fetchUsers\<close> is the
  whole function; \<open>fetchUsers_on_fetch\<close> and \<open>fetchUsers_on_body\<close> are its
  code between the awaits, the steps of the asynchronous model in \<open>App\<close>.
  The response status is a WebIDL \<open>unsigned short\<close>, a \<open>16 word\<close>.
\<close>

datatype body_stream = Delivered string | Interrupted string

record http_response =
  status :: "16 word"
  body :: body_stream

datatype fetch_result = Rejected js_error | Resolved http_response

type_synonym json_parser = "string \<Rightarrow> string + jsval"

definition users_url :: string where
  "users_url = ''https://jsonplaceholder.typicode.com/users''"

text \<open>\<open>Response.ok\<close>: the status is in the range 200 to 299.\<close>

definition response_ok :: "http_response \<Rightarrow> bool" where
  "response_ok r \<longleftrightarrow> 200 \<le> status r \<and> status r \<le> 299"

definition api_error :: js_error where
  "api_error = JsError ''Error'' ''Erreur API''"

text \<open>\<open>Response.json()\<close>: read the whole body, then \<open>JSON.parse\<close> it.\<close>

definition response_json :: "json_parser \<Rightarrow> http_response \<Rightarrow> js_error + jsval" where
  "response_json parse r =
     (case body r of
        Interrupted msg \<Rightarrow> Inl (type_error msg)
      | Delivered text \<Rightarrow>
          (case parse text of Inl msg \<Rightarrow> Inl (JsError ''SyntaxError'' msg) | Inr v \<Rightarrow> Inr v))"

text \<open>The \<open>try\<close> block: await the fetch, reject a non-ok response, decode the body.\<close>

definition fetchUsers_try :: "(string \<Rightarrow> fetch_result) \<Rightarrow> json_parser \<Rightarrow> js_error + jsval" where
  "fetchUsers_try net parse =
     (case net users_url of
        Rejected e \<Rightarrow> Inl e
      | Resolved response \<Rightarrow>
          if \<not> response_ok response then Inl api_error
          else response_json parse response)"

definition fetchUsers :: "(string \<Rightarrow> fetch_result) \<Rightarrow> json_parser \<Rightarrow> js_error + jsval" where
  "fetchUsers net parse = scatch (fetchUsers_try net parse) (\<lambda>error. Inl error)"

text \<open>The same code cut at its two awaits.\<close>

definition fetchUsers_on_fetch :: "fetch_result \<Rightarrow> js_error + http_response" where
  "fetchUsers_on_fetch fr =
     (case fr of
        Rejected e \<Rightarrow> Inl e
      | Resolved response \<Rightarrow> if \<not> response_ok response then Inl api_error else Inr response)"

definition fetchUsers_on_body :: "json_parser \<Rightarrow> http_response \<Rightarrow> js_error + jsval" where
  "fetchUsers_on_body parse response = scatch (response_json parse response) (\<lambda>error. Inl error)"

section \<open>Properties of fetchUsers\<close>

lemma response_ok_unat: "response_ok r \<longleftrightarrow> 200 \<le> unat (status r) \<and> unat (status r) \<le> 299"
  by (simp add: response_ok_def word_le_nat_alt)

lemma fetchUsers_staged:
  "fetchUsers net parse = sbind (fetchUsers_on_fetch (net users_url)) (fetchUsers_on_body parse)"
  by (simp add: fetchUsers_def fetchUsers_try_def fetchUsers_on_fetch_def fetchUsers_on_body_def
      split: fetch_result.split)

lemma fetchUsers_on_fetch_Inr: "fetchUsers_on_fetch fr = Inr r \<Longrightarrow> fr = Resolved r \<and> response_ok r"
  by (auto simp: fetchUsers_on_fetch_def split: fetch_result.splits if_splits)

lemma fetchUsers_on_fetch_Inl: "fetchUsers_on_fetch fr = Inl e \<Longrightarrow> fetchUsers (\<lambda>_. fr) parse = Inl e"
  by (auto simp: fetchUsers_on_fetch_def fetchUsers_def fetchUsers_try_def
      split: fetch_result.splits if_splits)

lemma fetchUsers_on_body_ok:
  "response_ok r \<Longrightarrow> fetchUsers (\<lambda>_. Resolved r) parse = fetchUsers_on_body parse r"
  by (simp add: fetchUsers_def fetchUsers_try_def fetchUsers_on_body_def)

text \<open>
  C6: when the server answers, \<open>fetchUsers\<close> rejects with
  \<open>Error('Erreur API')\<close> exactly when the status is outside 200 to 299.
\<close>

theorem fetchUsers_api_error_iff:
  assumes "net users_url = Resolved r"
  shows "fetchUsers net parse = Inl api_error \<longleftrightarrow> unat (status r) < 200 \<or> 299 < unat (status r)"
  using assms
  by (auto simp: fetchUsers_def fetchUsers_try_def response_ok_unat response_json_def api_error_def type_error_def
      split: body_stream.split sum.split)

theorem fetchUsers_api_error_iff_witness:
  "fetchUsers (\<lambda>_. Resolved \<lparr>status = 404, body = Delivered ''''\<rparr>) (\<lambda>_. Inr JNull) = Inl api_error"
  using fetchUsers_api_error_iff [of "\<lambda>_. Resolved \<lparr>status = 404, body = Delivered ''''\<rparr>"
      "\<lparr>status = 404, body = Delivered ''''\<rparr>" "\<lambda>_. Inr JNull"]
  by simp

text \<open>
  C7: \<open>fetchUsers\<close> resolves to \<open>v\<close> exactly when the server answers with an
  ok status and the body is delivered in full and parses to \<open>v\<close>.
\<close>

theorem fetchUsers_Inr_iff:
  "fetchUsers net parse = Inr v \<longleftrightarrow>
     (\<exists>r text. net users_url = Resolved r \<and> response_ok r \<and> body r = Delivered text \<and>
        parse text = Inr v)"
  by (auto simp: fetchUsers_def fetchUsers_try_def response_json_def
      split: fetch_result.split sum.split body_stream.split)

end
