(* ===== verification/Dom.thy ===== *)
theory Dom
  imports JsValue
begin

text \<open>
  \<open>src/js/dom.js\<close>: \<open>displayUsers\<close> empties the container and appends one
  \<open>div.user-card\<close> per user; \<open>displayError\<close> replaces the container's content
  by a red paragraph. The container is an \<open>element\<close> record; its children are
  \<open>node\<close>s. Assigning \<open>innerHTML\<close> stores the assigned source as one
  \<open>Markup\<close> child (the browser's HTML parser is not modelled), so the
  container's \<open>innerHTML\<close> (\<open>inner_html\<close>) reads back exactly what the
  program wrote. Both functions run in the exception-state monad over the
  container: a user whose fields cannot be read throws in the middle of the
  \<open>forEach\<close>, after the cards before it were appended. \<open>on_container\<close> is
  the call on the result of \<open>getElementById\<close>, which may be \<open>null\<close>.
  \<open>render_cards\<close> is the specification the loop is proved against: the list
  of cards, or the first error, computed without state.
\<close>

section \<open>Elements\<close>

datatype node = Markup string | Elem string "string list" "node list"

record element =
  tag_name :: string
  class_list :: "string list"
  children :: "node list"

definition createElement :: "string \<Rightarrow> element" where
  "createElement t = \<lparr>tag_name = t, class_list = [], children = []\<rparr>"

text \<open>\<open>DOMTokenList.add\<close>: a class already present is not added again.\<close>

definition classList_add :: "string \<Rightarrow> element \<Rightarrow> element" where
  "classList_add c el =
     (if c \<in> set (class_list el) then el else el\<lparr>class_list := class_list el @ [c]\<rparr>)"

definition set_innerHTML :: "string \<Rightarrow> element \<Rightarrow> element" where
  "set_innerHTML html el = el\<lparr>children := (if html = [] then [] else [Markup html])\<rparr>"

definition node_of :: "element \<Rightarrow> node" where
  "node_of el = Elem (tag_name el) (class_list el) (children el)"

definition appendChild :: "element \<Rightarrow> element \<Rightarrow> element" where
  "appendChild child el = el\<lparr>children := children el @ [node_of child]\<rparr>"

definition class_attr :: "string list \<Rightarrow> string" where
  "class_attr cs = (if cs = [] then [] else '' class=\"'' @ join_with '' '' cs @ ''\"'')"

fun outer_html :: "node \<Rightarrow> string" where
  "outer_html (Markup s) = s"
| "outer_html (Elem t cs ns) =
     ''<'' @ t @ class_attr cs @ ''>'' @ concat (map outer_html ns) @ ''</'' @ t @ ''>''"

definition inner_html :: "element \<Rightarrow> string" where
  "inner_html el = concat (map outer_html (children el))"

section \<open>The user card template\<close>

definition nl :: string where
  "nl = [CHR 0x0A]"

definition indent :: "nat \<Rightarrow> string" where
  "indent n = replicate n (CHR '' '')"

text \<open>The template literal of lines 7 to 11, cut at its three interpolations.\<close>

definition card_pre1 :: string where
  "card_pre1 = nl @ indent 12 @ ''<h3>''"

definition card_pre2 :: string where
  "card_pre2 = ''</h3>'' @ nl @ indent 12 @ ''<p><strong>Email:</strong> ''"

definition card_pre3 :: string where
  "card_pre3 = ''</p>'' @ nl @ indent 12 @ ''<p><strong>Ville:</strong> ''"

definition card_post :: string where
  "card_post = ''</p>'' @ nl @ indent 8"

definition card_html :: "string \<Rightarrow> string \<Rightarrow> string \<Rightarrow> string" where
  "card_html name email city = card_pre1 @ name @ card_pre2 @ email @ card_pre3 @ city @ card_post"

text \<open>The interpolations are evaluated left to right; the first that throws ends it.\<close>

definition render_card :: "jsval \<Rightarrow> js_error + string" where
  "render_card user =
     sbind (interp user [''name'']) (\<lambda>name.
     sbind (interp user [''email'']) (\<lambda>email.
     sbind (interp user [''address'', ''city'']) (\<lambda>city.
     Inr (card_html name email city))))"

section \<open>displayUsers and displayError\<close>

text \<open>The callback of \<open>users.forEach\<close>, lines 5 to 12.\<close>

definition display_user :: "jsval \<Rightarrow> (js_error, element, unit) est" where
  "display_user user =
     (let userCard = classList_add ''user-card'' (createElement ''div'')
      in est_bind (est_lift (render_card user))
           (\<lambda>html. est_modify (appendChild (set_innerHTML html userCard))))"

text \<open>
  \<open>users.forEach\<close>: an array yields its elements; reading \<open>forEach\<close> of
  \<open>null\<close> or \<open>undefined\<close> throws; on any other value it is \<open>undefined\<close>,
  and calling it throws.
\<close>

fun forEach_items :: "jsval \<Rightarrow> js_error + jsval list" where
  "forEach_items (JArr xs) = Inr xs"
| "forEach_items v =
     sbind (get_prop v ''forEach'') (\<lambda>_. Inl (type_error ''users.forEach is not a function''))"

definition displayUsers :: "jsval \<Rightarrow> (js_error, element, unit) est" where
  "displayUsers users =
     est_bind (est_modify (set_innerHTML [])) (\<lambda>_.
     est_bind (est_lift (forEach_items users)) (\<lambda>xs.
     est_forEach display_user xs))"

text \<open>The template literal of line 17; converting \<open>message\<close> may throw.\<close>

definition error_html :: "jsval \<Rightarrow> js_error + string" where
  "error_html message = sbind (to_str message) (\<lambda>m. Inr (''<p style=\"color:red;\">'' @ m @ ''</p>''))"

definition displayError :: "jsval \<Rightarrow> (js_error, element, unit) est" where
  "displayError message = est_bind (est_lift (error_html message)) (\<lambda>html. est_modify (set_innerHTML html))"

text \<open>
  A call with \<open>container = null\<close>: both functions begin by assigning
  \<open>container.innerHTML\<close>, which throws before anything else happens. V8
  evaluates the right-hand side first; in the calls \<open>main.js\<close> makes it
  cannot throw (the literal \<open>''\<close>, or a template over the string
  \<open>error.message\<close>), so the assignment's own TypeError is the outcome.
\<close>

definition on_container :: "(js_error, element, unit) est \<Rightarrow> (js_error, element option, unit) est" where
  "on_container f c =
     (case c of
        None \<Rightarrow> (Inl (set_error ''null'' ''innerHTML''), None)
      | Some el \<Rightarrow> (case f el of (r, el') \<Rightarrow> (r, Some el')))"

section \<open>Specification of the rendering\<close>

definition card_node :: "string \<Rightarrow> node" where
  "card_node html = Elem ''div'' [''user-card''] [Markup html]"

fun cards_of :: "jsval list \<Rightarrow> js_error + node list" where
  "cards_of [] = Inr []"
| "cards_of (u # us) =
     sbind (render_card u) (\<lambda>h. sbind (cards_of us) (\<lambda>ns. Inr (card_node h # ns)))"

definition render_cards :: "jsval \<Rightarrow> js_error + node list" where
  "render_cards users = sbind (forEach_items users) cards_of"

text \<open>The cards a failing loop leaves behind: those before the first failure.\<close>

fun partial_cards :: "jsval list \<Rightarrow> node list" where
  "partial_cards [] = []"
| "partial_cards (u # us) =
     (case render_card u of Inl _ \<Rightarrow> [] | Inr h \<Rightarrow> card_node h # partial_cards us)"

section \<open>The loop against its specification\<close>

lemma card_html_ne [simp]: "card_html n e c \<noteq> []"
  by (simp add: card_html_def card_pre1_def)

lemma render_card_Inr: "render_card u = Inr h \<Longrightarrow> \<exists>n e c. h = card_html n e c"
  by (auto simp: render_card_def sbind_eq_Inr)

lemma display_user_apply:
  "display_user u el =
     (case render_card u of
        Inl e \<Rightarrow> (Inl e, el)
      | Inr h \<Rightarrow> (Inr (), el\<lparr>children := children el @ [card_node h]\<rparr>))"
proof (cases "render_card u")
  case (Inr h)
  obtain n e c where "h = card_html n e c" using render_card_Inr [OF Inr] by blast
  then have "h \<noteq> []" by simp
  with Inr show ?thesis
    by (simp add: display_user_def est_simps appendChild_def set_innerHTML_def node_of_def
        classList_add_def createElement_def card_node_def)
qed (simp add: display_user_def est_simps)

lemma forEach_display_user:
  "est_forEach display_user xs el =
     (case cards_of xs of
        Inr ns \<Rightarrow> (Inr (), el\<lparr>children := children el @ ns\<rparr>)
      | Inl e \<Rightarrow> (Inl e, el\<lparr>children := children el @ partial_cards xs\<rparr>))"
proof (induction xs arbitrary: el)
  case Nil
  then show ?case by (simp add: est_simps)
next
  case (Cons u us)
  show ?case
  proof (cases "render_card u")
    case (Inl e)
    then show ?thesis by (simp add: est_simps display_user_apply)
  next
    case (Inr h)
    then have "display_user u el = (Inr (), el\<lparr>children := children el @ [card_node h]\<rparr>)"
      by (simp add: display_user_apply)
    then have "est_forEach display_user (u # us) el =
        est_forEach display_user us (el\<lparr>children := children el @ [card_node h]\<rparr>)"
      by simp
    with Inr show ?thesis by (simp add: Cons.IH split: sum.split)
  qed
qed

lemma displayUsers_apply:
  "displayUsers users el =
     (case render_cards users of
        Inr ns \<Rightarrow> (Inr (), el\<lparr>children := ns\<rparr>)
      | Inl e \<Rightarrow> (Inl e, el\<lparr>children :=
                    (case forEach_items users of Inl _ \<Rightarrow> [] | Inr xs \<Rightarrow> partial_cards xs)\<rparr>))"
  by (simp add: displayUsers_def render_cards_def est_simps set_innerHTML_def forEach_display_user
      split: sum.split)

lemma cards_of_ok:
  "list_all2 (\<lambda>u h. render_card u = Inr h) xs hs \<Longrightarrow> cards_of xs = Inr (map card_node hs)"
  by (induction rule: list_all2_induct) simp_all

lemma cards_of_append_ok:
  "list_all2 (\<lambda>u h. render_card u = Inr h) xs hs \<Longrightarrow>
   cards_of (xs @ ys) = sbind (cards_of ys) (\<lambda>ns. Inr (map card_node hs @ ns))"
  by (induction rule: list_all2_induct) (simp_all add: sbind_def split: sum.split)

lemma partial_cards_append_ok:
  "list_all2 (\<lambda>u h. render_card u = Inr h) xs hs \<Longrightarrow>
   partial_cards (xs @ ys) = map card_node hs @ partial_cards ys"
  by (induction rule: list_all2_induct) simp_all

lemma cards_of_first_failure:
  assumes "list_all2 (\<lambda>u h. render_card u = Inr h) (take k xs) hs"
    and "k < length xs" and "render_card (xs ! k) = Inl e"
  shows "cards_of xs = Inl e \<and> partial_cards xs = map card_node hs"
proof -
  have xs: "xs = take k xs @ xs ! k # drop (Suc k) xs"
    using assms(2) by (rule id_take_nth_drop)
  have "cards_of (take k xs @ xs ! k # drop (Suc k) xs) = Inl e"
    using assms(3) by (simp add: cards_of_append_ok [OF assms(1)])
  moreover have "partial_cards (take k xs @ xs ! k # drop (Suc k) xs) = map card_node hs"
    using assms(3) by (simp add: partial_cards_append_ok [OF assms(1)])
  ultimately show ?thesis using xs by metis
qed

section \<open>Properties of displayUsers\<close>

text \<open>
  C2: when every user's card can be rendered, \<open>displayUsers\<close> returns normally
  and the container holds exactly one \<open>div.user-card\<close> per user, in the order
  of the array, whatever it held before.
\<close>

theorem displayUsers_renders_all:
  assumes "forEach_items users = Inr xs"
    and "list_all2 (\<lambda>u h. render_card u = Inr h) xs hs"
  shows "displayUsers users el = (Inr (), el\<lparr>children := map card_node hs\<rparr>)"
  using assms by (simp add: displayUsers_apply render_cards_def cards_of_ok)

theorem displayUsers_renders_all_witness:
  "displayUsers
     (JArr [JObj [(''name'', JStr ''Leanne''), (''email'', JStr ''l@x.io''),
                  (''address'', JObj [(''city'', JStr ''Gwenborough'')])]])
     (createElement ''div'')
   = (Inr (), (createElement ''div'')\<lparr>children :=
        [card_node (card_html ''Leanne'' ''l@x.io'' ''Gwenborough'')]\<rparr>)"
proof -
  have "render_card (JObj [(''name'', JStr ''Leanne''), (''email'', JStr ''l@x.io''),
                  (''address'', JObj [(''city'', JStr ''Gwenborough'')])])
        = Inr (card_html ''Leanne'' ''l@x.io'' ''Gwenborough'')"
    by (simp add: render_card_def interp_def)
  then show ?thesis
    using displayUsers_renders_all [of _ "[JObj [(''name'', JStr ''Leanne''), (''email'', JStr ''l@x.io''),
                  (''address'', JObj [(''city'', JStr ''Gwenborough'')])]]"
        "[card_html ''Leanne'' ''l@x.io'' ''Gwenborough'']"]
    by simp
qed

text \<open>
  C3: when the user at index \<open>k\<close> is the first whose card cannot be rendered,
  \<open>displayUsers\<close> throws that user's error and leaves the container holding
  the cards of the users before it: a partial list.
\<close>

theorem displayUsers_partial_render:
  assumes "forEach_items users = Inr xs"
    and "list_all2 (\<lambda>u h. render_card u = Inr h) (take k xs) hs"
    and "k < length xs" and "render_card (xs ! k) = Inl e"
  shows "displayUsers users el = (Inl e, el\<lparr>children := map card_node hs\<rparr>)"
  using assms cards_of_first_failure [OF assms(2-4)]
  by (simp add: displayUsers_apply render_cards_def)

theorem displayUsers_partial_render_witness:
  "displayUsers
     (JArr [JObj [(''name'', JStr ''Leanne''), (''email'', JStr ''l@x.io''),
                  (''address'', JObj [(''city'', JStr ''Gwenborough'')])],
            JObj [(''name'', JStr ''Ervin'')]])
     (createElement ''div'')
   = (Inl (read_error ''undefined'' ''city''), (createElement ''div'')\<lparr>children :=
        [card_node (card_html ''Leanne'' ''l@x.io'' ''Gwenborough'')]\<rparr>)"
proof -
  have ok: "render_card (JObj [(''name'', JStr ''Leanne''), (''email'', JStr ''l@x.io''),
                  (''address'', JObj [(''city'', JStr ''Gwenborough'')])])
        = Inr (card_html ''Leanne'' ''l@x.io'' ''Gwenborough'')"
    by (simp add: render_card_def interp_def)
  have bad: "render_card (JObj [(''name'', JStr ''Ervin'')]) = Inl (read_error ''undefined'' ''city'')"
    by (simp add: render_card_def interp_def)
  show ?thesis
    using displayUsers_partial_render [of _ "[JObj [(''name'', JStr ''Leanne''), (''email'', JStr ''l@x.io''),
                  (''address'', JObj [(''city'', JStr ''Gwenborough'')])],
            JObj [(''name'', JStr ''Ervin'')]]" 1 "[card_html ''Leanne'' ''l@x.io'' ''Gwenborough'']"]
      ok bad
    by simp
qed

text \<open>
  C10: \<open>displayUsers\<close> first empties the container, so its outcome and the
  container's content afterwards do not depend on what the container held:
  in particular calling it twice on the same users gives the same page.
\<close>

theorem displayUsers_resets:
  "fst (displayUsers users el) = fst (displayUsers users el') \<and>
   children (snd (displayUsers users el)) = children (snd (displayUsers users el'))"
  by (simp add: displayUsers_apply split: sum.split)

lemma render_card_throws:
  "(\<exists>e. render_card u = Inl e) \<longleftrightarrow>
     (\<exists>e. interp u [''name''] = Inl e) \<or> (\<exists>e. interp u [''email''] = Inl e) \<or>
     (\<exists>e. interp u [''address'', ''city''] = Inl e)"
  by (cases "interp u [''name'']"; cases "interp u [''email'']"; cases "interp u [''address'', ''city'']")
     (simp_all add: render_card_def)

text \<open>
  C12: rendering a user's card throws exactly when the user is \<open>null\<close> or
  \<open>undefined\<close>, when its \<open>address\<close> is \<open>null\<close> or \<open>undefined\<close> (missing),
  or when \<open>name\<close>, \<open>email\<close> or \<open>address.city\<close> is an object with an own
  \<open>toString\<close> property, or an array holding one, which ToString cannot
  convert; absent \<open>name\<close> and \<open>email\<close> render as \<open>undefined\<close>.
\<close>

theorem render_card_throws_iff:
  "(\<exists>e. render_card u = Inl e) \<longleftrightarrow>
     u = JNull \<or> u = JUndefined \<or> get_prop u ''address'' = Inr JNull \<or>
     get_prop u ''address'' = Inr JUndefined \<or>
     (\<exists>w. get_prop u ''name'' = Inr w \<and> own_toString w) \<or>
     (\<exists>w. get_prop u ''email'' = Inr w \<and> own_toString w) \<or>
     (\<exists>w. get_path u [''address'', ''city''] = Inr w \<and> own_toString w)"
proof (cases "u = JNull \<or> u = JUndefined")
  case True
  then show ?thesis by (auto simp: render_card_def interp_def)
next
  case False
  then obtain a where a: "get_prop u ''address'' = Inr a"
    by (cases u) auto
  have city: "get_path u [''address'', ''city''] = get_prop a ''city''"
    using a by simp
  from False have "\<exists>w. get_prop u ''name'' = Inr w" "\<exists>w. get_prop u ''email'' = Inr w"
    by (cases u; simp)+
  then obtain wn we where "get_prop u ''name'' = Inr wn" "get_prop u ''email'' = Inr we"
    by blast
  with False a city show ?thesis
    unfolding render_card_throws interp_throws_iff
    using get_prop_throws_iff [of a "''city''"] by auto
qed

section \<open>Properties of displayError\<close>

text \<open>
  C9: on a present container \<open>displayError\<close> throws only when the message
  cannot be converted to a string, leaving the container untouched; otherwise
  the container's HTML is exactly the red paragraph holding the message, its
  old content is gone and its tag and classes are unchanged. The message
  \<open>main.js\<close> passes, \<open>error.message\<close>, is a string and always converts.
\<close>

theorem displayError_shows_message:
  "(case to_str m of
      Inl e \<Rightarrow> on_container (displayError m) (Some el) = (Inl e, Some el)
    | Inr s \<Rightarrow> (\<exists>el'. on_container (displayError m) (Some el) = (Inr (), Some el') \<and>
        inner_html el' = ''<p style=\"color:red;\">'' @ s @ ''</p>'' \<and>
        tag_name el' = tag_name el \<and> class_list el' = class_list el))"
  by (simp add: on_container_def displayError_def est_simps set_innerHTML_def inner_html_def
      error_html_def split: sum.split)

section \<open>The card markup\<close>

text \<open>
  C11: when \<open>name\<close>, \<open>email\<close> and \<open>address.city\<close> convert to the strings
  \<open>n\<close>, \<open>e\<close> and \<open>c\<close>, the card's HTML is the template of \<open>dom.js\<close>
  lines 7 to 11 with exactly these strings in the three holes, inserted
  verbatim (no escaping): a field holding markup becomes markup of the page.
\<close>

theorem render_card_fields:
  assumes "get_prop u ''name'' = Inr wn" and "to_str wn = Inr n"
    and "get_prop u ''email'' = Inr we" and "to_str we = Inr e"
    and "get_path u [''address'', ''city''] = Inr wc" and "to_str wc = Inr c"
  shows "render_card u = Inr (
     [CHR 0x0A] @ replicate 12 (CHR '' '') @ ''<h3>'' @ n @ ''</h3>'' @
     [CHR 0x0A] @ replicate 12 (CHR '' '') @ ''<p><strong>Email:</strong> '' @ e @ ''</p>'' @
     [CHR 0x0A] @ replicate 12 (CHR '' '') @ ''<p><strong>Ville:</strong> '' @ c @ ''</p>'' @
     [CHR 0x0A] @ replicate 8 (CHR '' ''))"
  using assms
  by (simp add: render_card_def interp_def card_html_def card_pre1_def card_pre2_def card_pre3_def
      card_post_def nl_def indent_def)

theorem render_card_fields_witness:
  "render_card (JObj [(''name'', JStr ''<b>Leanne</b>''), (''email'', JNum ''42''),
                      (''address'', JObj [(''city'', JArr [JStr ''Gwen'', JNull, JStr ''borough''])])]) =
   Inr ([CHR 0x0A] @ replicate 12 (CHR '' '') @ ''<h3>'' @ ''<b>Leanne</b>'' @ ''</h3>'' @
     [CHR 0x0A] @ replicate 12 (CHR '' '') @ ''<p><strong>Email:</strong> '' @ ''42'' @ ''</p>'' @
     [CHR 0x0A] @ replicate 12 (CHR '' '') @ ''<p><strong>Ville:</strong> '' @ ''Gwen,,borough'' @ ''</p>'' @
     [CHR 0x0A] @ replicate 8 (CHR '' ''))"
  by (rule render_card_fields) simp+

section \<open>Users that are not an array\<close>

text \<open>
  C17: when the decoded body is not an array, \<open>displayUsers\<close> has already
  emptied the container and then throws: reading \<open>forEach\<close> of \<open>null\<close> or
  \<open>undefined\<close> fails, and on any other value \<open>users.forEach\<close> is not a
  function.
\<close>

theorem displayUsers_not_array:
  assumes "\<forall>xs. users \<noteq> JArr xs"
  shows "displayUsers users el =
     (Inl (if users = JNull then read_error ''null'' ''forEach''
           else if users = JUndefined then read_error ''undefined'' ''forEach''
           else type_error ''users.forEach is not a function''),
      el\<lparr>children := []\<rparr>)"
  using assms
  by (cases users) (simp_all add: displayUsers_def est_simps set_innerHTML_def)

theorem displayUsers_not_array_witness:
  "displayUsers (JObj [(''error'', JStr ''quota'')]) (createElement ''div'') =
     (Inl (type_error ''users.forEach is not a function''), (createElement ''div'')\<lparr>children := []\<rparr>)"
  using displayUsers_not_array [of "JObj [(''error'', JStr ''quota'')]" "createElement ''div''"]
  by simp

end
