(* ===== verification/App.thy ===== *)
theory App
  imports Api Dom
begin

text \<open>
  \<open>src/js/main.js\<close>: at load the module looks up \<open>#loadUsersBtn\<close> and
  \<open>#usersContainer\<close> and registers an async click handler on the button. Each
  click runs the handler: it awaits \<open>fetchUsers()\<close>, then renders the users,
  and any error (from the fetch, the status check, the JSON body or the
  rendering) is caught and shown with \<open>displayError\<close>. Nothing cancels an
  earlier click, so several handler runs may be in flight; each is suspended
  at one of the two awaits of \<open>fetchUsers\<close> (\<open>phase\<close>), and the network
  decides the order in which they resume.

  The state \<open>app\<close> holds whether the listener is installed, the container
  element (\<open>None\<close> when \<open>getElementById\<close> returned \<open>null\<close>), the suspended
  handler runs by request number, the next request number, and the errors
  that escaped the handler (unhandled rejections) or the module. An
  \<open>event\<close> is a click or the settling of one of the two awaits;
  \<open>app_step\<close> is the deterministic effect of one event and \<open>app_trans\<close> the
  same steps as a relation; \<open>reachable\<close> collects the states of all runs
  from \<open>module_init\<close>. \<open>render_spec\<close> is what the page should show for a
  result of \<open>fetchUsers\<close>: every card, or the error message.
\<close>

section \<open>Module state\<close>

datatype phase = AwaitFetch | AwaitBody http_response

record app =
  listening :: bool
  usersContainer :: "element option"
  pending :: "nat \<rightharpoonup> phase"
  next_req :: nat
  uncaught :: "js_error list"

type_synonym document = "string \<rightharpoonup> element"

definition getElementById :: "document \<Rightarrow> string \<Rightarrow> element option" where
  "getElementById doc ident = doc ident"

text \<open>Lines 5 to 8: a missing button makes \<open>loadUsersBtn.addEventListener\<close> throw.\<close>

definition module_init :: "document \<Rightarrow> app" where
  "module_init doc =
     (let loadUsersBtn = getElementById doc ''loadUsersBtn'';
          container = getElementById doc ''usersContainer''
      in case loadUsersBtn of
           None \<Rightarrow> \<lparr>listening = False, usersContainer = container, pending = Map.empty,
                    next_req = 0, uncaught = [read_error ''null'' ''addEventListener'']\<rparr>
         | Some _ \<Rightarrow> \<lparr>listening = True, usersContainer = container, pending = Map.empty,
                    next_req = 0, uncaught = []\<rparr>)"

section \<open>The click handler\<close>

text \<open>Lines 9 to 14, once \<open>await fetchUsers()\<close> has settled with \<open>res\<close>.\<close>

definition handler_settle :: "js_error + jsval \<Rightarrow> (js_error, element option, unit) est" where
  "handler_settle res =
     est_catch
       (est_bind (est_lift res) (\<lambda>users. on_container (displayUsers users)))
       (\<lambda>error. on_container (displayError (JStr (err_message error))))"

definition finish :: "nat \<Rightarrow> js_error + jsval \<Rightarrow> app \<Rightarrow> app" where
  "finish i res s =
     (case handler_settle res (usersContainer s) of
        (r, c') \<Rightarrow> s\<lparr>usersContainer := c', pending := (pending s)(i := None),
                    uncaught := uncaught s @ (case r of Inl e \<Rightarrow> [e] | Inr _ \<Rightarrow> [])\<rparr>)"

datatype event = Click | FetchSettled nat fetch_result | BodySettled nat

fun app_step :: "json_parser \<Rightarrow> event \<Rightarrow> app \<Rightarrow> app option" where
  "app_step parse Click s =
     (if listening s
      then Some (s\<lparr>pending := (pending s)(next_req s \<mapsto> AwaitFetch), next_req := Suc (next_req s)\<rparr>)
      else None)"
| "app_step parse (FetchSettled i fr) s =
     (case pending s i of
        Some AwaitFetch \<Rightarrow>
          Some (case fetchUsers_on_fetch fr of
                  Inl e \<Rightarrow> finish i (Inl e) s
                | Inr r \<Rightarrow> s\<lparr>pending := (pending s)(i \<mapsto> AwaitBody r)\<rparr>)
      | _ \<Rightarrow> None)"
| "app_step parse (BodySettled i) s =
     (case pending s i of
        Some (AwaitBody r) \<Rightarrow> Some (finish i (fetchUsers_on_body parse r) s)
      | _ \<Rightarrow> None)"

fun app_run :: "json_parser \<Rightarrow> event list \<Rightarrow> app \<Rightarrow> app option" where
  "app_run parse [] s = Some s"
| "app_run parse (ev # evs) s = Option.bind (app_step parse ev s) (app_run parse evs)"

inductive app_trans :: "json_parser \<Rightarrow> app \<Rightarrow> app \<Rightarrow> bool" for parse where
  click: "listening s \<Longrightarrow>
    app_trans parse s (s\<lparr>pending := (pending s)(next_req s \<mapsto> AwaitFetch), next_req := Suc (next_req s)\<rparr>)"
| fetch_fail: "pending s i = Some AwaitFetch \<Longrightarrow> fetchUsers_on_fetch fr = Inl e \<Longrightarrow>
    app_trans parse s (finish i (Inl e) s)"
| fetch_ok: "pending s i = Some AwaitFetch \<Longrightarrow> fetchUsers_on_fetch fr = Inr r \<Longrightarrow>
    app_trans parse s (s\<lparr>pending := (pending s)(i \<mapsto> AwaitBody r)\<rparr>)"
| body: "pending s i = Some (AwaitBody r) \<Longrightarrow>
    app_trans parse s (finish i (fetchUsers_on_body parse r) s)"

inductive reachable :: "json_parser \<Rightarrow> document \<Rightarrow> app \<Rightarrow> bool" for parse doc where
  init: "reachable parse doc (module_init doc)"
| step: "reachable parse doc s \<Longrightarrow> app_trans parse s t \<Longrightarrow> reachable parse doc t"

section \<open>Specification of the page\<close>

definition render_spec :: "js_error + jsval \<Rightarrow> node list" where
  "render_spec res =
     (case sbind res render_cards of
        Inr ns \<Rightarrow> ns
      | Inl e \<Rightarrow> [Markup (''<p style=\"color:red;\">'' @ err_message e @ ''</p>'')])"

section \<open>The handler against its specification\<close>

lemma on_container_displayError:
  "on_container (displayError (JStr m)) (Some el) =
     (Inr (), Some (el\<lparr>children := [Markup (''<p style=\"color:red;\">'' @ m @ ''</p>'')]\<rparr>))"
  by (simp add: on_container_def displayError_def error_html_def est_simps set_innerHTML_def)

lemma on_container_displayUsers:
  "on_container (displayUsers users) (Some el) =
     (case displayUsers users el of (r, el') \<Rightarrow> (r, Some el'))"
  by (simp add: on_container_def)

lemma handler_settle_Some:
  "handler_settle res (Some el) = (Inr (), Some (el\<lparr>children := render_spec res\<rparr>))"
proof (cases res)
  case (Inl e)
  then show ?thesis
    by (simp add: handler_settle_def est_simps on_container_displayError render_spec_def)
next
  case (Inr users)
  then show ?thesis
    by (simp add: handler_settle_def est_simps on_container_displayUsers on_container_displayError
        displayUsers_apply render_spec_def split: sum.split)
qed

lemma handler_no_container:
  "handler_settle res None = (Inl (set_error ''null'' ''innerHTML''), None)"
  by (cases res) (simp_all add: handler_settle_def est_simps on_container_def)

lemma finish_Some:
  "usersContainer s = Some el \<Longrightarrow>
   finish i res s = s\<lparr>usersContainer := Some (el\<lparr>children := render_spec res\<rparr>),
                      pending := (pending s)(i := None)\<rparr>"
  by (simp add: finish_def handler_settle_Some)

lemma finish_None:
  "usersContainer s = None \<Longrightarrow>
   finish i res s = s\<lparr>pending := (pending s)(i := None),
                      uncaught := uncaught s @ [set_error ''null'' ''innerHTML'']\<rparr>"
  by (simp add: finish_def handler_no_container)

text \<open>
  C1: once \<open>fetchUsers\<close> has settled with \<open>res\<close>, the rest of the click
  handler leaves a present container showing exactly \<open>render_spec res\<close> (all
  the cards, or only the error message) and lets no error escape; the partial
  list \<open>displayUsers\<close> leaves behind when a user cannot be rendered is always
  replaced. With no container, both calls throw and the handler's promise
  rejects with the TypeError of the \<open>innerHTML\<close> assignment.
\<close>

theorem handler_refines_spec:
  "handler_settle res c =
     (case c of
        Some el \<Rightarrow> (Inr (), Some (el\<lparr>children := render_spec res\<rparr>))
      | None \<Rightarrow> (Inl (set_error ''null'' ''innerHTML''), None))"
  by (cases c) (simp_all add: handler_settle_Some handler_no_container)

lemma finish_frame [simp]:
  "listening (finish i res s) = listening s" "next_req (finish i res s) = next_req s"
  "pending (finish i res s) = (pending s)(i := None)"
  by (simp_all add: finish_def split: prod.split)

section \<open>The step function and the step relation\<close>

inductive_cases app_transE: "app_trans parse s t"

lemma app_step_imp_trans: "app_step parse ev s = Some t \<Longrightarrow> app_trans parse s t"
proof -
  assume ev: "app_step parse ev s = Some t"
  show "app_trans parse s t"
  proof (cases ev)
    case Click
    with ev show ?thesis by (auto intro: app_trans.click split: if_splits)
  next
    case (FetchSettled i fr)
    with ev show ?thesis
      by (auto intro: app_trans.fetch_fail app_trans.fetch_ok
          split: option.splits phase.splits sum.splits)
  next
    case (BodySettled i)
    with ev show ?thesis
      by (auto intro: app_trans.body split: option.splits phase.splits)
  qed
qed

lemma app_run_trans:
  "app_run parse evs s = Some t \<Longrightarrow> reachable parse doc s \<Longrightarrow> reachable parse doc t"
proof (induction evs arbitrary: s)
  case Nil
  then show ?case by simp
next
  case (Cons ev evs)
  then obtain s1 where s1: "app_step parse ev s = Some s1" and rest: "app_run parse evs s1 = Some t"
    by (auto split: Option.bind_splits)
  from s1 have "app_trans parse s s1" by (rule app_step_imp_trans)
  with Cons.prems(2) have "reachable parse doc s1" by (rule reachable.step)
  with rest show ?case by (rule Cons.IH)
qed

section \<open>Invariants of the reachable states\<close>

lemma module_init_simps [simp]:
  "listening (module_init doc) \<longleftrightarrow> doc ''loadUsersBtn'' \<noteq> None"
  "usersContainer (module_init doc) = doc ''usersContainer''"
  "pending (module_init doc) = Map.empty"
  "next_req (module_init doc) = 0"
  "uncaught (module_init doc) =
     (if doc ''loadUsersBtn'' = None then [read_error ''null'' ''addEventListener''] else [])"
  by (simp_all add: module_init_def getElementById_def Let_def split: option.split)

lemma app_trans_listening: "app_trans parse s t \<Longrightarrow> listening t = listening s"
  by (erule app_transE) simp_all

lemma reachable_listening: "reachable parse doc s \<Longrightarrow> listening s \<longleftrightarrow> doc ''loadUsersBtn'' \<noteq> None"
  by (induction rule: reachable.induct) (simp_all add: app_trans_listening)

lemma reachable_idle: "reachable parse doc s \<Longrightarrow> \<not> listening s \<Longrightarrow> s = module_init doc"
proof (induction rule: reachable.induct)
  case init
  then show ?case by simp
next
  case (step s t)
  then have "s = module_init doc" using app_trans_listening by metis
  with step.prems step.hyps(2) show ?case
    by (auto elim: app_transE simp: app_trans_listening)
qed

lemma reachable_pending:
  "reachable parse doc s \<Longrightarrow>
   dom (pending s) \<subseteq> {..<next_req s} \<and>
   (\<forall>i r. pending s i = Some (AwaitBody r) \<longrightarrow> response_ok r)"
proof (induction rule: reachable.induct)
  case init
  then show ?case by simp
next
  case (step s t)
  from step.hyps(2) step.IH show ?case
    by (cases rule: app_trans.cases)
      (auto simp: subset_iff dom_def dest: fetchUsers_on_fetch_Inr split: if_splits)
qed

lemma reachable_container:
  "reachable parse doc s \<Longrightarrow>
   (usersContainer s = None \<longleftrightarrow> doc ''usersContainer'' = None) \<and>
   (\<forall>el. usersContainer s = Some el \<longrightarrow>
      (\<exists>el0. doc ''usersContainer'' = Some el0 \<and>
             (el = el0 \<or> (\<exists>res. el = el0\<lparr>children := render_spec res\<rparr>))))"
proof (induction rule: reachable.induct)
  case init
  then show ?case by simp
next
  case (step s t)
  from step.hyps(2) step.IH show ?case
  proof (cases rule: app_trans.cases)
    case (fetch_fail i fr e)
    then show ?thesis using step.IH
      by (cases "usersContainer s") (auto simp: finish_Some finish_None)
  next
    case (body i r)
    then show ?thesis using step.IH
      by (cases "usersContainer s") (auto simp: finish_Some finish_None)
  qed simp_all
qed

section \<open>Properties of the page\<close>

text \<open>
  What a run has shown so far: every handler run waiting for its body holds
  an ok response some \<open>FetchSettled\<close> event of the run delivered, and the
  container is the one of the page, untouched or showing \<open>render_spec\<close> of
  what \<open>fetchUsers\<close> yields for a fetch outcome the run delivered.
\<close>

definition run_inv :: "json_parser \<Rightarrow> element \<Rightarrow> event set \<Rightarrow> app \<Rightarrow> bool" where
  "run_inv parse el0 E s \<longleftrightarrow>
     (\<forall>i r. pending s i = Some (AwaitBody r) \<longrightarrow> response_ok r \<and> FetchSettled i (Resolved r) \<in> E) \<and>
     (usersContainer s = Some el0 \<or>
      (\<exists>i fr. FetchSettled i fr \<in> E \<and>
         usersContainer s = Some (el0\<lparr>children := render_spec (fetchUsers (\<lambda>_. fr) parse)\<rparr>)))"

lemma run_inv_container:
  "run_inv parse el0 E s \<Longrightarrow> \<exists>el. usersContainer s = Some el \<and> el\<lparr>children := ns\<rparr> = el0\<lparr>children := ns\<rparr>"
  unfolding run_inv_def by auto

lemma run_inv_finish:
  assumes "run_inv parse el0 E s" and "FetchSettled i fr \<in> E'" and "E \<subseteq> E'"
    and "res = fetchUsers (\<lambda>_. fr) parse"
  shows "run_inv parse el0 E' (finish i res s)"
proof -
  obtain el where el: "usersContainer s = Some el" and upd: "el\<lparr>children := render_spec res\<rparr> =
      el0\<lparr>children := render_spec res\<rparr>"
    using run_inv_container [OF assms(1)] by blast
  show ?thesis
    using assms(1-4) unfolding run_inv_def finish_Some [OF el] upd by auto
qed

lemma run_inv_step:
  assumes "run_inv parse el0 E s" and "app_step parse ev s = Some t"
  shows "run_inv parse el0 (insert ev E) t"
proof (cases ev)
  case Click
  with assms show ?thesis by (fastforce simp: run_inv_def split: if_splits)
next
  case (FetchSettled i fr)
  with assms(2) have ph: "pending s i = Some AwaitFetch" by (auto split: option.splits phase.splits)
  show ?thesis
  proof (cases "fetchUsers_on_fetch fr")
    case (Inl e)
    with assms(2) FetchSettled ph have "t = finish i (Inl e) s" by simp
    moreover have "Inl e = fetchUsers (\<lambda>_. fr) parse"
      using fetchUsers_on_fetch_Inl [OF Inl] by simp
    ultimately show ?thesis
      using FetchSettled by (auto intro: run_inv_finish [OF assms(1)])
  next
    case (Inr r)
    with assms(2) FetchSettled ph have "t = s\<lparr>pending := (pending s)(i \<mapsto> AwaitBody r)\<rparr>" by simp
    with assms(1) FetchSettled fetchUsers_on_fetch_Inr [OF Inr] show ?thesis
      by (auto simp: run_inv_def)
  qed
next
  case (BodySettled i)
  with assms(2) obtain r where ph: "pending s i = Some (AwaitBody r)"
    and t: "t = finish i (fetchUsers_on_body parse r) s"
    by (auto split: option.splits phase.splits)
  from assms(1) ph have "response_ok r" and "FetchSettled i (Resolved r) \<in> E"
    by (auto simp: run_inv_def)
  then show ?thesis
    unfolding t by (intro run_inv_finish [OF assms(1)]) (auto simp: fetchUsers_on_body_ok)
qed

lemma run_inv_run:
  "run_inv parse el0 E s \<Longrightarrow> app_run parse evs s = Some t \<Longrightarrow> run_inv parse el0 (E \<union> set evs) t"
proof (induction evs arbitrary: s E)
  case Nil
  then show ?case by simp
next
  case (Cons ev evs)
  then obtain s1 where s1: "app_step parse ev s = Some s1" and rest: "app_run parse evs s1 = Some t"
    by (auto split: Option.bind_splits)
  have "run_inv parse el0 (insert ev E \<union> set evs) t"
    using Cons.IH [OF run_inv_step [OF Cons.prems(1) s1] rest] .
  then show ?case by simp
qed

text \<open>
  C4: after any run of clicks and network events from the loaded page, the
  container either is untouched or shows exactly \<open>render_spec\<close> of what
  \<open>fetchUsers\<close> yields for a fetch outcome the network delivered in that run:
  all the cards of a response, or one error message, never the partial list
  \<open>displayUsers\<close> leaves behind when a user cannot be rendered.
\<close>

theorem container_shows_a_response:
  assumes "app_run parse evs (module_init doc) = Some t" and "doc ''usersContainer'' = Some el0"
  shows "usersContainer t = Some el0 \<or>
    (\<exists>i fr. FetchSettled i fr \<in> set evs \<and>
       usersContainer t = Some (el0\<lparr>children := render_spec (fetchUsers (\<lambda>_. fr) parse)\<rparr>))"
proof -
  have "run_inv parse el0 {} (module_init doc)" using assms(2) by (simp add: run_inv_def)
  from run_inv_run [OF this assms(1)] show ?thesis by (simp add: run_inv_def)
qed

theorem container_shows_a_response_witness:
  "\<exists>t. app_run (\<lambda>_. Inr (JArr [JObj [(''name'', JStr ''Leanne''), (''address'', JObj [])], JNull]))
       [Click, FetchSettled 0 (Resolved \<lparr>status = 200, body = Delivered ''[...]''\<rparr>), BodySettled 0]
       (module_init [''loadUsersBtn'' \<mapsto> createElement ''button'', ''usersContainer'' \<mapsto> createElement ''div''])
       = Some t \<and>
     (usersContainer t = Some (createElement ''div'') \<or>
      (\<exists>i fr. FetchSettled i fr \<in> set [Click, FetchSettled 0 (Resolved \<lparr>status = 200, body = Delivered ''[...]''\<rparr>), BodySettled 0] \<and>
         usersContainer t = Some ((createElement ''div'')\<lparr>children := render_spec (fetchUsers (\<lambda>_. fr)
           (\<lambda>_. Inr (JArr [JObj [(''name'', JStr ''Leanne''), (''address'', JObj [])], JNull])))\<rparr>)))"
proof -
  obtain t where t: "app_run (\<lambda>_. Inr (JArr [JObj [(''name'', JStr ''Leanne''), (''address'', JObj [])], JNull]))
       [Click, FetchSettled 0 (Resolved \<lparr>status = 200, body = Delivered ''[...]''\<rparr>), BodySettled 0]
       (module_init [''loadUsersBtn'' \<mapsto> createElement ''button'', ''usersContainer'' \<mapsto> createElement ''div''])
       = Some t"
    by (simp add: fetchUsers_on_fetch_def response_ok_def)
  from t container_shows_a_response [OF t] show ?thesis by auto
qed

text \<open>
  C5: when the body of request \<open>i\<close> settles, the container shows exactly what
  \<open>fetchUsers\<close> yields for that request's response, whatever the other
  requests did before: the last request to settle decides the page.
\<close>

theorem settle_shows_own_result:
  assumes "reachable parse doc s" and "pending s i = Some (AwaitBody r)"
    and "usersContainer s = Some el"
  shows "\<exists>t. app_step parse (BodySettled i) s = Some t \<and>
    usersContainer t = Some (el\<lparr>children := render_spec (fetchUsers (\<lambda>_. Resolved r) parse)\<rparr>) \<and>
    pending t = (pending s)(i := None)"
proof -
  from reachable_pending [OF assms(1)] assms(2) have "response_ok r" by blast
  then have "fetchUsers (\<lambda>_. Resolved r) parse = fetchUsers_on_body parse r"
    by (rule fetchUsers_on_body_ok)
  with assms(2,3) show ?thesis by (simp add: finish_Some)
qed

theorem settle_shows_own_result_witness:
  "\<exists>s t. reachable (\<lambda>_. Inr (JArr [])) [''loadUsersBtn'' \<mapsto> createElement ''button'',
            ''usersContainer'' \<mapsto> createElement ''div''] s \<and>
     pending s 0 = Some (AwaitBody \<lparr>status = 200, body = Delivered ''[]''\<rparr>) \<and>
     app_step (\<lambda>_. Inr (JArr [])) (BodySettled 0) s = Some t \<and>
     usersContainer t = Some ((createElement ''div'')\<lparr>children :=
       render_spec (fetchUsers (\<lambda>_. Resolved \<lparr>status = 200, body = Delivered ''[]''\<rparr>) (\<lambda>_. Inr (JArr [])))\<rparr>)"
proof -
  let ?p = "\<lambda>_::string. Inr (JArr []) :: string + jsval"
  let ?d = "[''loadUsersBtn'' \<mapsto> createElement ''button'', ''usersContainer'' \<mapsto> createElement ''div'']"
  let ?r = "\<lparr>status = 200, body = Delivered ''[]''\<rparr>"
  let ?s1 = "(module_init ?d)\<lparr>pending := [0 \<mapsto> AwaitFetch], next_req := 1\<rparr>"
  let ?s2 = "?s1\<lparr>pending := [0 \<mapsto> AwaitBody ?r]\<rparr>"
  have "app_step ?p Click (module_init ?d) = Some ?s1" by simp
  then have r1: "reachable ?p ?d ?s1" by (blast intro: reachable.step reachable.init app_step_imp_trans)
  have "app_step ?p (FetchSettled 0 (Resolved ?r)) ?s1 = Some ?s2"
    by (simp add: fetchUsers_on_fetch_def response_ok_def)
  with r1 have r2: "reachable ?p ?d ?s2" by (blast intro: reachable.step app_step_imp_trans)
  have p2: "pending ?s2 0 = Some (AwaitBody ?r)" by simp
  have c2: "usersContainer ?s2 = Some (createElement ''div'')" by simp
  from settle_shows_own_result [OF r2 p2 c2] r2 p2 show ?thesis by blast
qed

text \<open>
  C8: when the page has both the button and the container, no error ever
  escapes the click handler: every failure ends in \<open>displayError\<close>.
\<close>

theorem no_uncaught_errors:
  assumes "reachable parse doc s" and "doc ''loadUsersBtn'' \<noteq> None"
    and "doc ''usersContainer'' \<noteq> None"
  shows "uncaught s = []"
  using assms
proof (induction rule: reachable.induct)
  case init
  then show ?case by simp
next
  case (step s t)
  then obtain el where el: "usersContainer s = Some el"
    using reachable_container [OF step.hyps(1)] by auto
  from step.hyps(2) step.IH step.prems el show ?case
    by (cases rule: app_trans.cases) (simp_all add: finish_Some)
qed

theorem no_uncaught_errors_witness:
  "uncaught (module_init [''loadUsersBtn'' \<mapsto> createElement ''button'',
                          ''usersContainer'' \<mapsto> createElement ''div'']) = []"
  by (rule no_uncaught_errors [OF reachable.init [where parse = "\<lambda>_. Inr JNull"]]) simp_all

text \<open>
  C13: without the button the module throws at load (reading
  \<open>addEventListener\<close> of \<open>null\<close>), no listener exists, and the page never
  changes.
\<close>

theorem no_button_no_listener:
  assumes "reachable parse doc s" and "doc ''loadUsersBtn'' = None"
  shows "s = module_init doc \<and> uncaught s = [read_error ''null'' ''addEventListener'']"
proof -
  from reachable_listening [OF assms(1)] assms(2) have "\<not> listening s" by simp
  with assms(1) have "s = module_init doc" by (rule reachable_idle)
  with assms(2) show ?thesis by simp
qed

theorem no_button_no_listener_witness:
  "uncaught (module_init [''usersContainer'' \<mapsto> createElement ''div''])
     = [read_error ''null'' ''addEventListener'']"
  using no_button_no_listener [OF reachable.init [where parse = "\<lambda>_. Inr JNull"
      and doc = "[''usersContainer'' \<mapsto> createElement ''div'']"]] by simp

lemma completed_count_settle:
  assumes "finite D" and "i \<in> D" and "card D \<le> n"
  shows "n - card (D - {i}) = Suc (n - card D)"
proof -
  have "card (D - {i}) = card D - 1" using assms(1,2) by simp
  moreover have "0 < card D" using assms(1,2) card_gt_0_iff by blast
  ultimately show ?thesis using assms(3) by simp
qed

text \<open>
  C16: on a page with the button but without \<open>#usersContainer\<close>, every
  completed click leaves exactly one unhandled rejection, the TypeError of the
  \<open>innerHTML\<close> assignment on \<open>null\<close>, and nothing else escapes.
\<close>

theorem uncaught_without_container:
  assumes "reachable parse doc s" and "doc ''loadUsersBtn'' \<noteq> None"
    and "doc ''usersContainer'' = None"
  shows "uncaught s = replicate (next_req s - card (dom (pending s))) (set_error ''null'' ''innerHTML'')"
  using assms
proof (induction rule: reachable.induct)
  case init
  then show ?case by simp
next
  case (step s t)
  have sub: "dom (pending s) \<subseteq> {..<next_req s}" using reachable_pending [OF step.hyps(1)] by blast
  then have fin: "finite (dom (pending s))" by (rule finite_subset) simp
  have le: "card (dom (pending s)) \<le> next_req s" using card_mono [OF _ sub] by simp
  have none: "usersContainer s = None" using reachable_container [OF step.hyps(1)] step.prems(2) by simp
  have IH: "uncaught s = replicate (next_req s - card (dom (pending s))) (set_error ''null'' ''innerHTML'')"
    using step.IH step.prems by blast
  have settle: "uncaught (finish i res s) =
      replicate (next_req (finish i res s) - card (dom (pending (finish i res s))))
        (set_error ''null'' ''innerHTML'')"
    if "i \<in> dom (pending s)" for i res
  proof -
    have d: "dom (pending (finish i res s)) = dom (pending s) - {i}" by auto
    have u: "uncaught (finish i res s) = uncaught s @ [set_error ''null'' ''innerHTML'']"
      using none by (simp add: finish_None)
    show ?thesis
      unfolding d u finish_frame(2) completed_count_settle [OF fin that le] IH
      by (simp add: replicate_append_same)
  qed
  from step.hyps(2) show ?case
  proof (cases rule: app_trans.cases)
    case click
    have notin: "next_req s \<notin> dom (pending s)" using sub by auto
    have "dom (pending t) = insert (next_req s) (dom (pending s))" using click by simp
    with notin fin have ct: "card (dom (pending t)) = Suc (card (dom (pending s)))" by simp
    have nt: "next_req t = Suc (next_req s)" and ut: "uncaught t = uncaught s"
      using click by simp_all
    show ?thesis unfolding nt ut ct IH by simp
  next
    case (fetch_fail i fr e)
    then show ?thesis using settle [of i] by blast
  next
    case (fetch_ok i fr r)
    then have d: "dom (pending t) = dom (pending s)" by auto
    have nt: "next_req t = next_req s" and ut: "uncaught t = uncaught s"
      using fetch_ok by simp_all
    show ?thesis by (simp only: d nt ut IH)
  next
    case (body i r)
    then show ?thesis using settle [of i] by blast
  qed
qed

theorem uncaught_without_container_witness:
  "uncaught ((module_init [''loadUsersBtn'' \<mapsto> createElement ''button''])
      \<lparr>pending := [0 \<mapsto> AwaitFetch, 1 \<mapsto> AwaitFetch], next_req := 2\<rparr>)
   = replicate (2 - card {0::nat, 1}) (set_error ''null'' ''innerHTML'')"
proof -
  let ?p = "\<lambda>_::string. Inr JNull :: string + jsval"
  let ?d = "[''loadUsersBtn'' \<mapsto> createElement ''button'']"
  let ?s1 = "(module_init ?d)\<lparr>pending := [0 \<mapsto> AwaitFetch], next_req := 1\<rparr>"
  let ?s2 = "(module_init ?d)\<lparr>pending := [0 \<mapsto> AwaitFetch, 1 \<mapsto> AwaitFetch], next_req := 2\<rparr>"
  have "app_step ?p Click (module_init ?d) = Some ?s1" by simp
  then have r1: "reachable ?p ?d ?s1"
    by (blast intro: reachable.step reachable.init app_step_imp_trans)
  have "app_step ?p Click ?s1 = Some ?s2" by simp
  with r1 have r2: "reachable ?p ?d ?s2"
    by (blast intro: reachable.step app_step_imp_trans)
  have d: "dom (pending ?s2) = {0, 1}" by auto
  from uncaught_without_container [OF r2] d show ?thesis by simp
qed

end
