(* ===== verification/Spec2Isabelle.thy ===== *)
theory Spec2Isabelle
  imports App
begin

text \<open>
  \<^bold>\<open>A verified model of the user-list widget.\<close>

  \<^bold>\<open>The program.\<close> Three ES modules under \<open>src/js\<close>. \<open>api.js\<close> exports
  \<open>fetchUsers\<close>, which fetches \<open>https://jsonplaceholder.typicode.com/users\<close>,
  rejects with \<open>Error('Erreur API')\<close> when \<open>response.ok\<close> is false, and
  otherwise resolves to \<open>response.json()\<close>; its \<open>catch\<close> rethrows.
  \<open>dom.js\<close> exports \<open>displayUsers(users, container)\<close>, which empties the
  container and appends a \<open>div.user-card\<close> per user built from a template
  literal over \<open>user.name\<close>, \<open>user.email\<close> and \<open>user.address.city\<close>, and
  \<open>displayError(message, container)\<close>, which replaces the content by a red
  paragraph. \<open>main.js\<close> looks up \<open>#loadUsersBtn\<close> and \<open>#usersContainer\<close>
  at load and registers an async click handler: await \<open>fetchUsers()\<close>, then
  \<open>displayUsers\<close>; any exception goes to \<open>displayError(error.message)\<close>.
  The components interact only by calls: the handler calls \<open>fetchUsers\<close> and
  then one of the two display functions on the shared container element.

  \<^bold>\<open>The theories.\<close>
  \<^item> \<open>Prelude\<close>: the exception-state monad \<open>('e, 's, 'a) est\<close> (a JavaScript
    statement sequence that may throw after mutating state; \<open>est_forEach\<close> is
    \<open>Array.prototype.forEach\<close>), \<open>sbind\<close>/\<open>scatch\<close> for throwing
    expressions, \<open>join_with\<close>, and the collection \<open>est_simps\<close>.
  \<^item> \<open>JsValue\<close>: the values the program touches (\<open>jsval\<close>: JSON values plus
    \<open>undefined\<close>, a number kept as its \<open>Number::toString\<close> text), error
    objects (\<open>js_error\<close>), property access \<open>get_prop\<close>/\<open>get_path\<close> with
    V8's TypeErrors on \<open>null\<close>/\<open>undefined\<close>, and template-literal ToString
    \<open>to_str\<close>/\<open>join_elems\<close>, which throws for an object with an own
    \<open>toString\<close> property (\<open>own_toString\<close> characterises those values).
  \<^item> \<open>Api\<close> (api.js): \<open>http_response\<close> with a \<open>16 word\<close> status and a
    \<open>body_stream\<close> that is delivered or interrupted by a network error,
    \<open>response_ok\<close>, \<open>response_json\<close>, \<open>fetchUsers_try\<close> and \<open>fetchUsers\<close>
    (lines 2 to 10), and \<open>fetchUsers_on_fetch\<close>/\<open>fetchUsers_on_body\<close>, the
    function's code between its awaits. The fetch outcome and the JSON parser
    are parameters (\<open>net\<close>, \<open>parse\<close>): the lemmas hold for every behaviour of
    them.
  \<^item> \<open>Dom\<close> (dom.js): the container as an \<open>element\<close> record, \<open>node\<close>
    children, \<open>createElement\<close>, \<open>classList_add\<close>, \<open>set_innerHTML\<close>,
    \<open>appendChild\<close>, serialisation \<open>inner_html\<close>; the template \<open>card_html\<close>
    and its evaluation \<open>render_card\<close>; the callback \<open>display_user\<close>,
    \<open>forEach_items\<close>, \<open>displayUsers\<close>, \<open>error_html\<close>, \<open>displayError\<close>,
    and \<open>on_container\<close> for a \<open>null\<close> container. \<open>render_cards\<close> and
    \<open>partial_cards\<close> are the stateless specification of the loop.
  \<^item> \<open>App\<close> (main.js): \<open>module_init\<close> (lines 5 to 8), \<open>handler_settle\<close>
    (lines 9 to 14 after the await), and the asynchronous machine: state
    \<open>app\<close>, events \<open>Click\<close>/\<open>FetchSettled\<close>/\<open>BodySettled\<close>, the step
    function \<open>app_step\<close>, its run \<open>app_run\<close>, the relation \<open>app_trans\<close>
    and the reachable states \<open>reachable\<close>. \<open>render_spec\<close> is the abstract
    page for a result of \<open>fetchUsers\<close>; \<open>run_inv\<close> is the invariant of runs
    relating the page to the fetch outcomes a run delivered.

  \<^bold>\<open>What is proved.\<close> Api: the closed forms of \<open>fetchUsers\<close> on its
  error and success branches (C6, C7); \<open>fetchUsers_staged\<close> shows that
  the code cut at the awaits is the same function. Dom: \<open>displayUsers\<close>
  renders all cards in order (C2) or throws leaving exactly the cards before
  the first bad user (C3), independently of the old content (C10), and
  throws after emptying the container when the body is not an array (C17);
  the card's HTML is the literal template with the fields inserted verbatim
  (C11); which users make it throw (C12); \<open>displayError\<close> (C9). App: the
  handler after the await refines \<open>render_spec\<close> (C1); after any run the
  container shows the page of a fetch outcome the run delivered, never a
  partial list (C4); each settling request shows its own result, so the
  last response to settle decides the page whatever the click order (C5);
  no error escapes when the page has both elements (C8), exactly one
  TypeError per completed click without the container (C16), and the page
  stays at load state without the button (C13). Here: a click followed by
  the server's answer shows the cards or the API error (C14, C15).

  \<^bold>\<open>Choices and limits.\<close> No fuel is needed: every loop is structural
  (\<open>est_forEach\<close> over the array, \<open>to_str\<close>/\<open>join_elems\<close> over the value,
  \<open>nat_to_str\<close> by \<open>div 10\<close>), and the only unbounded behaviour, the
  interleaving of clicks and responses, is the relation \<open>app_trans\<close> or an
  arbitrary finite event list given to \<open>app_run\<close>. Not modelled: the
  browser's HTML parser (an assigned \<open>innerHTML\<close> is kept as one
  \<open>Markup\<close> child, so markup inside user data is not turned into elements),
  the network and JSON parser (parameters), floating-point arithmetic (the
  program does none; a number is its canonical text), array-index
  properties, the button's own DOM (never changed), and the microtask order
  between the two awaits of one request, which no other code can observe.
  In \<open>on_container\<close> the TypeError of the assignment to a \<open>null\<close>
  container is the outcome, which holds because the right-hand sides
  \<open>main.js\<close> evaluates there never throw. Error messages are V8's.

  \<^bold>\<open>Plan.\<close> The order followed, most important behaviour first: the
  handler's catch and the page it leaves (App, C1, C4), the rendering loop
  (Dom, C2, C3), the request and its error paths (Api), the interleaving of
  clicks (App, C5, C8, C16), then the value semantics and the markup
  (JsValue, Dom). Still to state: frame properties of the machine (the
  button's element and the request counter are never changed by a settling
  event, \<open>app_step\<close> never revisits a request number), \<open>classList_add\<close>
  idempotence, and an end-to-end theorem for a body that fails to parse or
  is interrupted.
\<close>

section \<open>End to end\<close>

text \<open>
  C14: on a page with both elements, a click whose request is answered with an
  ok response whose body is delivered and parses to users that all render leaves the container
  holding exactly their cards, with nothing in flight and no uncaught error.
\<close>

theorem click_shows_users:
  assumes "doc ''loadUsersBtn'' = Some btn" and "doc ''usersContainer'' = Some el0"
    and "response_ok r" and "body r = Delivered text" and "parse text = Inr users"
    and "render_cards users = Inr ns"
  shows "\<exists>t. app_run parse [Click, FetchSettled 0 (Resolved r), BodySettled 0] (module_init doc) = Some t \<and>
    usersContainer t = Some (el0\<lparr>children := ns\<rparr>) \<and> pending t = Map.empty \<and> uncaught t = []"
  using assms
  by (simp add: fetchUsers_on_fetch_def fetchUsers_on_body_def response_json_def finish_Some
      render_spec_def)

theorem click_shows_users_witness:
  "\<exists>t. app_run (\<lambda>_. Inr (JArr [JObj [(''name'', JStr ''Leanne''), (''email'', JStr ''l@x.io''),
                                   (''address'', JObj [(''city'', JStr ''Gwenborough'')])]]))
     [Click, FetchSettled 0 (Resolved \<lparr>status = 200, body = Delivered ''[...]''\<rparr>), BodySettled 0]
     (module_init [''loadUsersBtn'' \<mapsto> createElement ''button'', ''usersContainer'' \<mapsto> createElement ''div''])
     = Some t \<and>
   usersContainer t = Some ((createElement ''div'')\<lparr>children :=
     [card_node (card_html ''Leanne'' ''l@x.io'' ''Gwenborough'')]\<rparr>) \<and>
   pending t = Map.empty \<and> uncaught t = []"
proof -
  have "render_cards (JArr [JObj [(''name'', JStr ''Leanne''), (''email'', JStr ''l@x.io''),
                                   (''address'', JObj [(''city'', JStr ''Gwenborough'')])]])
        = Inr [card_node (card_html ''Leanne'' ''l@x.io'' ''Gwenborough'')]"
    by (simp add: render_cards_def render_card_def interp_def)
  then show ?thesis
    by (intro click_shows_users) (simp_all add: response_ok_def)
qed

text \<open>
  C15: on a page with both elements, a click whose request is answered with a
  status outside 200 to 299 leaves the container's HTML exactly
  \<open><p style="color:red;">Erreur API</p>\<close>.
\<close>

theorem click_shows_http_error:
  assumes "doc ''loadUsersBtn'' = Some btn" and "doc ''usersContainer'' = Some el0"
    and "\<not> response_ok r"
  shows "\<exists>t el. app_run parse [Click, FetchSettled 0 (Resolved r)] (module_init doc) = Some t \<and>
    usersContainer t = Some el \<and> inner_html el = ''<p style=\"color:red;\">Erreur API</p>''"
  using assms
  by (simp add: fetchUsers_on_fetch_def finish_Some render_spec_def api_error_def inner_html_def)

theorem click_shows_http_error_witness:
  "\<exists>t el. app_run (\<lambda>_. Inr JNull) [Click, FetchSettled 0 (Resolved \<lparr>status = 500, body = Delivered ''''\<rparr>)]
     (module_init [''loadUsersBtn'' \<mapsto> createElement ''button'', ''usersContainer'' \<mapsto> createElement ''div''])
     = Some t \<and>
   usersContainer t = Some el \<and> inner_html el = ''<p style=\"color:red;\">Erreur API</p>''"
  by (rule click_shows_http_error) (simp_all add: response_ok_def)

end
